theory Spec2Isabelle
  imports Main
begin

section \<open>Values exchanged with the server\<close>

text \<open>
  A Python float is an IEEE binary64 number. A finite one is kept as an integer mantissa
  and a binary exponent: \<open>Double m e\<close> stands for \<open>m * 2 ^ e\<close>.
\<close>

datatype double = Double int int

text \<open>
  JSON values as Python's \<open>json\<close> module decodes them. A \<open>dict\<close> keeps its insertion
  order, so it is an association list; \<open>{}\<close> is \<open>JObj []\<close>.
\<close>

datatype json =
    JNull
  | JBool bool
  | JInt int
  | JFloat double
  | JStr string
  | JList "json list"
  | JObj "(string \<times> json) list"

text \<open>
  What \<open>requests\<close> hands back: the status code and the raw body (\<open>response.content\<close>).
\<close>

record response =
  status_code :: int
  content :: string

text \<open>
  The exceptions that can leave the module. \<open>TBHTTPAPIException\<close> and its subclass
  \<open>TBProvisionFailure\<close> are the two classes declared in the source (lines 8 to 13);
  \<open>HTTPError\<close> is the one \<open>requests\<close> raises from \<open>raise_for_status\<close> and carries
  the response; \<open>JSONDecodeError\<close> comes from \<open>response.json()\<close>; \<open>KeyError\<close> and
  \<open>TypeError\<close> come from subscripting; \<open>Other\<close> is any exception of the transport
  or of a user callback.
\<close>

datatype error =
    HTTPError response
  | JSONDecodeError
  | KeyError string
  | TypeError
  | TBHTTPAPIException json
  | TBProvisionFailure json
  | Other string

text \<open>\<open>isinstance(e, TBHTTPAPIException)\<close>: the class itself and its subclass.\<close>

fun is_TBHTTPAPIException :: "error \<Rightarrow> bool" where
  "is_TBHTTPAPIException (TBHTTPAPIException _) = True"
| "is_TBHTTPAPIException (TBProvisionFailure _) = True"
| "is_TBHTTPAPIException _ = False"

section \<open>Requests\<close>

datatype http_method = GET | POST

text \<open>
  The two shapes of URL the module builds. \<open>ApiUrl host token endpoint\<close> is the f-string
  \<open>{host}/api/v1/{token}/{endpoint}\<close> (\<open>api_base_url\<close> followed by the endpoint), and
  \<open>ProvisionUrl host\<close> is \<open>{host}/api/v1/provision\<close>. The parts are kept apart since
  the token is whatever value the caller or the provisioning response supplied.
\<close>

datatype url = ApiUrl string json string | ProvisionUrl string

record request =
  http_method :: http_method
  url :: url
  json_body :: "json option"
  params :: "(string \<times> json) list"

text \<open>
  The network: the server and the transport together answer a request with a response,
  or the transport raises.
\<close>

type_synonym transport = "request \<Rightarrow> error + response"

text \<open>
  \<open>response.raise_for_status()\<close> of \<open>requests\<close>: an \<open>HTTPError\<close> holding the
  response for a client error (400 to 499) or a server error (500 to 599), nothing
  otherwise.
\<close>

definition raise_for_status :: "response \<Rightarrow> error + unit" where
  "raise_for_status r =
     (if 400 \<le> status_code r \<and> status_code r < 500 then Inl (HTTPError r)
      else if 500 \<le> status_code r \<and> status_code r < 600 then Inl (HTTPError r)
      else Inr ())"

text \<open>
  \<open>response.json()\<close>: the decoder of the \<open>json\<close> library is a parameter \<open>loads\<close>
  (\<open>None\<close> where it rejects the text), applied to the body.
\<close>

type_synonym decoder = "string \<Rightarrow> json option"

definition response_json :: "decoder \<Rightarrow> response \<Rightarrow> error + json" where
  "response_json loads r =
     (case loads (content r) of None \<Rightarrow> Inl JSONDecodeError | Some j \<Rightarrow> Inr j)"

section \<open>The client\<close>

text \<open>
  The fields of \<open>TBHTTPClient\<close> that the operations read or write. The two
  \<open>threading.Event\<close> objects of \<open>self.subscriptions\<close> are the two flags; the session,
  the logger and the thread handles carry no behaviour of their own here.
\<close>

record client =
  host :: string
  token :: json
  name :: "string option"
  attributes_event :: bool
  rpc_event :: bool

text \<open>\<open>__init__\<close>: both events start cleared.\<close>

definition init :: "string \<Rightarrow> json \<Rightarrow> string option \<Rightarrow> client" where
  "init h t n =
     \<lparr>host = h, token = t, name = n, attributes_event = False, rpc_event = False\<rparr>"

definition api_url :: "client \<Rightarrow> string \<Rightarrow> url" where
  "api_url c endpoint = ApiUrl (host c) (token c) endpoint"

text \<open>\<open>publish_data\<close> (lines 46 to 54).\<close>

definition post_request :: "client \<Rightarrow> json \<Rightarrow> string \<Rightarrow> request" where
  "post_request c data endpoint =
     \<lparr>http_method = POST, url = api_url c endpoint, json_body = Some data, params = []\<rparr>"

definition publish_data :: "transport \<Rightarrow> decoder \<Rightarrow> client \<Rightarrow> json \<Rightarrow> string \<Rightarrow> error + json" where
  "publish_data send loads c data endpoint =
     (case send (post_request c data endpoint) of
        Inl e \<Rightarrow> Inl e
      | Inr r \<Rightarrow>
          (case raise_for_status r of
             Inl e \<Rightarrow> Inl e
           | Inr _ \<Rightarrow> if content r \<noteq> [] then response_json loads r else Inr (JObj [])))"

text \<open>\<open>get_data\<close> (lines 56 to 65).\<close>

definition get_request :: "client \<Rightarrow> (string \<times> json) list \<Rightarrow> string \<Rightarrow> request" where
  "get_request c ps endpoint =
     \<lparr>http_method = GET, url = api_url c endpoint, json_body = None, params = ps\<rparr>"

definition get_data ::
  "transport \<Rightarrow> decoder \<Rightarrow> client \<Rightarrow> (string \<times> json) list \<Rightarrow> string \<Rightarrow> error + json" where
  "get_data send loads c ps endpoint =
     (case send (get_request c ps endpoint) of
        Inl e \<Rightarrow> Inl e
      | Inr r \<Rightarrow>
          (case raise_for_status r of
             Inl e \<Rightarrow> Inl e
           | Inr _ \<Rightarrow> response_json loads r))"

text \<open>\<open>connect\<close>, \<open>send_attributes\<close> and \<open>send_rpc\<close> (lines 42 to 44 and 84 to 98).\<close>

definition connect :: "transport \<Rightarrow> decoder \<Rightarrow> client \<Rightarrow> error + unit" where
  "connect send loads c =
     (case publish_data send loads c (JObj []) ''telemetry'' of
        Inl e \<Rightarrow> Inl e | Inr _ \<Rightarrow> Inr ())"

definition send_attributes :: "transport \<Rightarrow> decoder \<Rightarrow> client \<Rightarrow> json \<Rightarrow> error + unit" where
  "send_attributes send loads c attributes =
     (case publish_data send loads c attributes ''attributes'' of
        Inl e \<Rightarrow> Inl e | Inr _ \<Rightarrow> Inr ())"

text \<open>\<open>send_rpc\<close>: \<open>params or {}\<close> turns a missing or empty mapping into \<open>{}\<close>.\<close>

definition send_rpc ::
  "transport \<Rightarrow> decoder \<Rightarrow> client \<Rightarrow> string \<Rightarrow> (string \<times> json) list option \<Rightarrow> error + json" where
  "send_rpc send loads c rpc_name ps =
     publish_data send loads c
       (JObj [(''method'', JStr rpc_name),
              (''params'', (case ps of None \<Rightarrow> JObj [] | Some d \<Rightarrow> if d \<noteq> [] then JObj d else JObj []))])
       ''rpc''"

text \<open>\<open>request_attributes\<close> (lines 100 to 108); an argument left out is \<open>None\<close>.\<close>

definition request_attributes ::
  "transport \<Rightarrow> decoder \<Rightarrow> client \<Rightarrow> json list option \<Rightarrow> json list option \<Rightarrow> error + json" where
  "request_attributes send loads c client_keys shared_keys =
     get_data send loads c
       [(''client_keys'', (case client_keys of None \<Rightarrow> JNull | Some ks \<Rightarrow> JList ks)),
        (''shared_keys'', (case shared_keys of None \<Rightarrow> JNull | Some ks \<Rightarrow> JList ks))]
       ''attributes''"

section \<open>Timestamps\<close>

text \<open>
  A \<open>datetime\<close> with the fields Python gives it; \<open>tzinfo\<close> is the UTC offset in seconds
  of the attached time zone, \<open>None\<close> for a naive value.
\<close>

record datetime =
  year :: int
  month :: int
  day :: int
  hour :: int
  minute :: int
  second :: int
  microsecond :: int
  tzinfo :: "int option"

text \<open>The proleptic Gregorian ordinal of a date, as the \<open>datetime\<close> module counts it.\<close>

definition is_leap :: "int \<Rightarrow> bool" where
  "is_leap y = (y mod 4 = 0 \<and> (y mod 100 \<noteq> 0 \<or> y mod 400 = 0))"

definition days_before_year :: "int \<Rightarrow> int" where
  "days_before_year y =
     (y - 1) * 365 + (y - 1) div 4 - (y - 1) div 100 + (y - 1) div 400"

definition days_before_month :: "int \<Rightarrow> int \<Rightarrow> int" where
  "days_before_month y m =
     sum_list (take (nat (m - 1)) [31, 28, 31, 30, 31, 30, 31, 31, 30, 31, 30, 31])
       + (if 2 < m \<and> is_leap y then 1 else 0)"

definition ymd2ord :: "int \<Rightarrow> int \<Rightarrow> int \<Rightarrow> int" where
  "ymd2ord y m d = days_before_year y + days_before_month y m + d"

text \<open>
  \<open>timestamp.replace(tzinfo=timezone.utc) - epoch\<close> in microseconds: the time zone is
  replaced, not converted, so the wall-clock fields are read as UTC whatever \<open>tzinfo\<close>
  was. The epoch is 1970-01-01T00:00:00 UTC.
\<close>

definition utc_microseconds :: "datetime \<Rightarrow> int" where
  "utc_microseconds T =
     (((ymd2ord (year T) (month T) (day T) - ymd2ord 1970 1 1) * 86400
        + hour T * 3600 + minute T * 60 + second T) * 1000000)
       + microsecond T"

subsection \<open>Binary64 arithmetic\<close>

text \<open>
  Rounding to nearest, ties to even, at 53 bits of precision. Overflow to infinity
  (magnitudes from \<open>2 ^ 1024\<close> on) is not represented: a \<open>datetime\<close> stays below
  \<open>2 ^ 58\<close> microseconds.
\<close>

text \<open>\<open>n.bit_length()\<close> for a natural number \<open>n\<close>.\<close>

function bit_length :: "int \<Rightarrow> int" where
  "bit_length n = (if n \<le> 0 then 0 else 1 + bit_length (n div 2))"
  by pat_completeness auto
termination
  by (relation "measure nat") auto

declare bit_length.simps [simp del]

text \<open>The integer nearest to \<open>n / d\<close> for \<open>0 < d\<close>, a tie going to the even one.\<close>

definition round_half_even :: "int \<Rightarrow> int \<Rightarrow> int" where
  "round_half_even n d =
     (let q = n div d; r = n mod d
      in if 2 * r < d then q
         else if d < 2 * r then q + 1
         else if even q then q else q + 1)"

text \<open>\<open>\<lfloor>log\<^sub>2 (n / d)\<rfloor>\<close> for positive \<open>n\<close> and \<open>d\<close>, from the bit lengths.\<close>

definition floor_log2 :: "int \<Rightarrow> int \<Rightarrow> int" where
  "floor_log2 n d =
     (let k = bit_length n - bit_length d
      in if (if 0 \<le> k then d * 2 ^ nat k \<le> n else d \<le> n * 2 ^ nat (- k))
         then k else k - 1)"

text \<open>
  The binary64 number nearest to the fraction \<open>n / d\<close> (\<open>0 < d\<close>): the mantissa is
  scaled to 53 bits, or to the subnormal exponent -1074.
\<close>

definition round_double :: "int \<Rightarrow> int \<Rightarrow> double" where
  "round_double n d =
     (if n = 0 then Double 0 0
      else
        let e = max (floor_log2 \<bar>n\<bar> d - 52) (- 1074)
        in if 0 \<le> e then Double (round_half_even n (d * 2 ^ nat e)) e
           else Double (round_half_even (n * 2 ^ nat (- e)) d) e)"

text \<open>Python's \<open>n / d\<close> on integers is the correctly rounded quotient.\<close>

definition true_divide :: "int \<Rightarrow> int \<Rightarrow> double" where
  "true_divide n d = round_double n d"

text \<open>A float times an integer that binary64 holds exactly: the rounded product.\<close>

fun double_times :: "double \<Rightarrow> int \<Rightarrow> double" where
  "double_times (Double m e) c =
     (if 0 \<le> e then round_double (m * c * 2 ^ nat e) 1
      else round_double (m * c) (2 ^ nat (- e)))"

text \<open>\<open>int(x)\<close> on a float discards the fraction, towards zero.\<close>

fun int_of_double :: "double \<Rightarrow> int" where
  "int_of_double (Double m e) =
     (if 0 \<le> e then m * 2 ^ nat e else sgn m * (\<bar>m\<bar> div 2 ^ nat (- e)))"

text \<open>
  \<open>timestamp.replace(tzinfo=timezone.utc).timestamp()\<close>: for an aware value this is
  \<open>(self - epoch).total_seconds()\<close>, the microseconds divided by \<open>10 ** 6\<close>.
\<close>

definition utc_timestamp :: "datetime \<Rightarrow> double" where
  "utc_timestamp T = true_divide (utc_microseconds T) 1000000"

text \<open>
  \<open>send_telemetry\<close> (lines 67 to 82). A \<open>datetime\<close> is always true in a condition, so
  \<open>if timestamp\<close> separates a given timestamp from \<open>None\<close>.
\<close>

definition telemetry_ts :: "datetime \<Rightarrow> int" where
  "telemetry_ts T = int_of_double (double_times (utc_timestamp T) 1000)"

definition telemetry_payload :: "json \<Rightarrow> datetime option \<Rightarrow> json" where
  "telemetry_payload telemetry timestamp =
     (case timestamp of
        Some T \<Rightarrow> JObj [(''ts'', JInt (telemetry_ts T)), (''values'', telemetry)]
      | None \<Rightarrow> telemetry)"

definition send_telemetry ::
  "transport \<Rightarrow> decoder \<Rightarrow> client \<Rightarrow> json \<Rightarrow> datetime option \<Rightarrow> error + unit" where
  "send_telemetry send loads c telemetry timestamp =
     (case publish_data send loads c (telemetry_payload telemetry timestamp) ''telemetry'' of
        Inl e \<Rightarrow> Inl e | Inr _ \<Rightarrow> Inr ())"

section \<open>Subscriptions\<close>

text \<open>
  The attribute loop (lines 110 to 145) and the RPC loop (lines 147 to 182) are the same
  text, apart from the key into \<open>self.subscriptions\<close> and the endpoint; \<open>kind\<close> is
  that key.
\<close>

datatype kind = Attributes | Rpc

fun poll_endpoint :: "kind \<Rightarrow> string" where
  "poll_endpoint Attributes = ''attributes/updates''"
| "poll_endpoint Rpc = ''rpc''"

text \<open>The three operations of \<open>threading.Event\<close> on the event of a kind.\<close>

fun is_set :: "kind \<Rightarrow> client \<Rightarrow> bool" where
  "is_set Attributes c = attributes_event c"
| "is_set Rpc c = rpc_event c"

fun set_event :: "kind \<Rightarrow> client \<Rightarrow> client" where
  "set_event Attributes c = c\<lparr>attributes_event := True\<rparr>"
| "set_event Rpc c = c\<lparr>rpc_event := True\<rparr>"

fun clear_event :: "kind \<Rightarrow> client \<Rightarrow> client" where
  "clear_event Attributes c = c\<lparr>attributes_event := False\<rparr>"
| "clear_event Rpc c = c\<lparr>rpc_event := False\<rparr>"

definition unsubscribe_from_attributes :: "client \<Rightarrow> client" where
  "unsubscribe_from_attributes c = set_event Attributes c"

definition unsubscribe_from_rpc :: "client \<Rightarrow> client" where
  "unsubscribe_from_rpc c = set_event Rpc c"

fun unsubscribe :: "kind \<Rightarrow> client \<Rightarrow> client" where
  "unsubscribe Attributes c = unsubscribe_from_attributes c"
| "unsubscribe Rpc c = unsubscribe_from_rpc c"

text \<open>
  \<open>timeout: int = None\<close>. In a condition \<open>None\<close> and \<open>0\<close> are false and every other
  integer is true.
\<close>

fun truthy :: "int option \<Rightarrow> bool" where
  "truthy None = False"
| "truthy (Some n) = (n \<noteq> 0)"

text \<open>\<open>params = {'timeout': timeout} if timeout else {}\<close> (lines 117 and 154).\<close>

definition subscribe_params :: "int option \<Rightarrow> (string \<times> json) list" where
  "subscribe_params timeout =
     (case timeout of
        None \<Rightarrow> []
      | Some n \<Rightarrow> if truthy timeout then [(''timeout'', JInt n)] else [])"

definition poll_request :: "kind \<Rightarrow> int option \<Rightarrow> client \<Rightarrow> request" where
  "poll_request k timeout c =
     \<lparr>http_method = GET, url = api_url c (poll_endpoint k), json_body = None,
      params = subscribe_params timeout\<rparr>"

text \<open>
  A callback is called with the decoded body and returns, or raises (\<open>Some e\<close>).
\<close>

type_synonym callback = "json \<Rightarrow> error option"

text \<open>
  What follows the GET in one pass of \<open>while True\<close> (lines 125 to 132 and 162 to 169),
  for the response \<open>r\<close>: the arguments the callback was called with, and how the pass
  leaves the loop body.
\<close>

datatype control = Continue | Break | Raise error

definition iteration ::
  "decoder \<Rightarrow> callback \<Rightarrow> kind \<Rightarrow> int option \<Rightarrow> client \<Rightarrow> response \<Rightarrow> json list \<times> control" where
  "iteration loads callback k timeout c r =
     (if is_set k c then ([], Break)
      else if status_code r = 408 \<and> truthy timeout then ([], Break)
      else if status_code r = 504 then ([], Continue)
      else
        (case raise_for_status r of
           Inl e \<Rightarrow> ([], Raise e)
         | Inr _ \<Rightarrow>
             (case response_json loads r of
                Inl e \<Rightarrow> ([], Raise e)
              | Inr j \<Rightarrow>
                  (case callback j of
                     Some e \<Rightarrow> ([j], Raise e)
                   | None \<Rightarrow> ([j], Continue)))))"

text \<open>
  The loop runs on a thread of its own, against what happens around it: another thread
  calls an unsubscribe method, or the pending GET comes back (with a response, or with
  an exception of the transport). A run is driven by the list of these actions in the
  order they take effect. An unsubscribe that falls after the check of the event in one
  pass is seen by the check of the next pass, so it is listed before the next reply.
  When the list ends the loop is still waiting for its GET: \<open>Pending\<close>.

  The trace lists what the loop does: each GET it issues and each call of the callback.
\<close>

datatype action = Unsubscribe kind | Reply "error + response"

datatype event = Requested request | Called json

datatype outcome = Pending | Broke | Raised error

text \<open>
  \<open>while_loop\<close> is the loop from the point where a GET has been issued and is pending.
\<close>

fun while_loop ::
  "decoder \<Rightarrow> callback \<Rightarrow> kind \<Rightarrow> int option \<Rightarrow> client \<Rightarrow> action list
     \<Rightarrow> event list \<times> outcome \<times> client" where
  "while_loop loads callback k timeout c [] = ([], Pending, c)"
| "while_loop loads callback k timeout c (Unsubscribe k' # acts) =
     while_loop loads callback k timeout (unsubscribe k' c) acts"
| "while_loop loads callback k timeout c (Reply (Inl e) # acts) = ([], Raised e, c)"
| "while_loop loads callback k timeout c (Reply (Inr r) # acts) =
     (case iteration loads callback k timeout c r of
        (calls, Break) \<Rightarrow> (map Called calls, Broke, c)
      | (calls, Raise e) \<Rightarrow> (map Called calls, Raised e, c)
      | (calls, Continue) \<Rightarrow>
          (case while_loop loads callback k timeout c acts of
             (trace, out, c') \<Rightarrow>
               (map Called calls @ Requested (poll_request k timeout c) # trace, out, c')))"

text \<open>
  The thread body \<open>subscription\<close> (lines 119 to 134 and 156 to 171): the event is
  cleared, the loop runs, and the event is cleared again once the loop is left by
  \<open>break\<close>. An exception leaves the function before the second \<open>clear()\<close>.
\<close>

definition subscription ::
  "decoder \<Rightarrow> callback \<Rightarrow> kind \<Rightarrow> int option \<Rightarrow> client \<Rightarrow> action list
     \<Rightarrow> event list \<times> outcome \<times> client" where
  "subscription loads callback k timeout c acts =
     (case while_loop loads callback k timeout (clear_event k c) acts of
        (trace, out, c') \<Rightarrow>
          (Requested (poll_request k timeout (clear_event k c)) # trace,
           out,
           if out = Broke then clear_event k c' else c'))"

definition subscribe_to_attributes ::
  "decoder \<Rightarrow> callback \<Rightarrow> int option \<Rightarrow> client \<Rightarrow> action list \<Rightarrow> event list \<times> outcome \<times> client" where
  "subscribe_to_attributes loads callback timeout c acts =
     subscription loads callback Attributes timeout c acts"

definition subscribe_to_rpc ::
  "decoder \<Rightarrow> callback \<Rightarrow> int option \<Rightarrow> client \<Rightarrow> action list \<Rightarrow> event list \<times> outcome \<times> client" where
  "subscribe_to_rpc loads callback timeout c acts =
     subscription loads callback Rpc timeout c acts"


section \<open>Provisioning\<close>

text \<open>
  \<open>device[key]\<close>: a \<open>KeyError\<close> for a mapping without the key, a \<open>TypeError\<close> for
  a decoded value that is no mapping.
\<close>

fun subscript :: "json \<Rightarrow> string \<Rightarrow> error + json" where
  "subscript (JObj d) key =
     (case map_of d key of None \<Rightarrow> Inl (KeyError key) | Some v \<Rightarrow> Inr v)"
| "subscript _ key = Inl TypeError"

definition provision_request :: "string \<Rightarrow> string \<Rightarrow> string \<Rightarrow> string \<Rightarrow> request" where
  "provision_request h device_name device_key device_secret =
     \<lparr>http_method = POST, url = ProvisionUrl h,
      json_body = Some (JObj [(''deviceName'', JStr device_name),
                              (''provisionDeviceKey'', JStr device_key),
                              (''provisionDeviceSecret'', JStr device_secret)]),
      params = []\<rparr>"

text \<open>
  \<open>provision\<close> (lines 184 to 204). The \<open>and\<close> of line 202 reads
  \<open>device['credentialsType']\<close> only when the status is \<open>'SUCCESS'\<close>.
\<close>

definition provision ::
  "transport \<Rightarrow> decoder \<Rightarrow> string \<Rightarrow> string \<Rightarrow> string \<Rightarrow> string \<Rightarrow> error + client" where
  "provision send loads h device_name device_key device_secret =
     (case send (provision_request h device_name device_key device_secret) of
        Inl e \<Rightarrow> Inl e
      | Inr r \<Rightarrow>
          (case raise_for_status r of
             Inl e \<Rightarrow> Inl e
           | Inr _ \<Rightarrow>
               (case response_json loads r of
                  Inl e \<Rightarrow> Inl e
                | Inr device \<Rightarrow>
                    (case subscript device ''status'' of
                       Inl e \<Rightarrow> Inl e
                     | Inr st \<Rightarrow>
                         if st = JStr ''SUCCESS'' then
                           (case subscript device ''credentialsType'' of
                              Inl e \<Rightarrow> Inl e
                            | Inr ct \<Rightarrow>
                                if ct = JStr ''ACCESS_TOKEN'' then
                                  (case subscript device ''credentialsValue'' of
                                     Inl e \<Rightarrow> Inl e
                                   | Inr v \<Rightarrow> Inr (init h v (Some device_name)))
                                else Inl (TBProvisionFailure device))
                         else Inl (TBProvisionFailure device)))))"

section \<open>Example values\<close>

text \<open>Concrete clients, responses, transports and callbacks on which the results are run.\<close>

definition example_client :: client where
  "example_client = init ''http://localhost:8080'' (JStr ''A1_TEST_TOKEN'') None"

definition answer :: "response \<Rightarrow> transport" where
  "answer r q = Inr r"

definition quiet :: callback where
  "quiet j = None"

text \<open>A decoder for a handful of bodies; like every JSON decoder it rejects the empty text.\<close>

definition example_loads :: decoder where
  "example_loads b =
     (if b = ''{}'' then Some (JObj [])
      else if b = ''[]'' then Some (JList [])
      else if b = ''{\"shared\": 1}'' then Some (JObj [(''shared'', JInt 1)])
      else if b = ''{\"status\": \"SUCCESS\", \"credentialsType\": \"ACCESS_TOKEN\", \"credentialsValue\": \"X\"}''
        then Some (JObj [(''status'', JStr ''SUCCESS''),
                         (''credentialsType'', JStr ''ACCESS_TOKEN''),
                         (''credentialsValue'', JStr ''X'')])
      else if b = ''{\"status\": \"NOT_FOUND\"}'' then Some (JObj [(''status'', JStr ''NOT_FOUND'')])
      else if b = ''{\"status\": \"SUCCESS\"}'' then Some (JObj [(''status'', JStr ''SUCCESS'')])
      else None)"

definition response_empty :: response where
  "response_empty = \<lparr>status_code = 200, content = []\<rparr>"

definition response_update :: response where
  "response_update = \<lparr>status_code = 200, content = ''{\"shared\": 1}''\<rparr>"

definition response_not_found :: response where
  "response_not_found = \<lparr>status_code = 404, content = ''Not Found''\<rparr>"

definition response_request_timeout :: response where
  "response_request_timeout = \<lparr>status_code = 408, content = []\<rparr>"

definition response_gateway_timeout :: response where
  "response_gateway_timeout = \<lparr>status_code = 504, content = []\<rparr>"

definition response_provisioned :: response where
  "response_provisioned =
     \<lparr>status_code = 200,
      content = ''{\"status\": \"SUCCESS\", \"credentialsType\": \"ACCESS_TOKEN\", \"credentialsValue\": \"X\"}''\<rparr>"

definition response_unprovisioned :: response where
  "response_unprovisioned = \<lparr>status_code = 200, content = ''{\"status\": \"NOT_FOUND\"}''\<rparr>"

definition response_status_only :: response where
  "response_status_only = \<lparr>status_code = 200, content = ''{\"status\": \"SUCCESS\"}''\<rparr>"

text \<open>\<open>datetime(1970, 1, 1, 0, 0, 1, 1000)\<close>: one second and one millisecond after the epoch.\<close>

definition example_datetime :: datetime where
  "example_datetime =
     \<lparr>year = 1970, month = 1, day = 1, hour = 0, minute = 0, second = 1,
      microsecond = 1000, tzinfo = None\<rparr>"

text \<open>\<open>datetime(2023, 11, 14, 22, 13, 20, 1000)\<close>.\<close>

definition example_datetime_2023 :: datetime where
  "example_datetime_2023 =
     \<lparr>year = 2023, month = 11, day = 14, hour = 22, minute = 13, second = 20,
      microsecond = 1000, tzinfo = None\<rparr>"

section \<open>Plain requests\<close>

lemma raise_for_status_error:
  "400 \<le> status_code r \<Longrightarrow> status_code r < 600 \<Longrightarrow> raise_for_status r = Inl (HTTPError r)"
  by (simp add: raise_for_status_def)

lemma raise_for_status_ok:
  "status_code r < 400 \<or> 600 \<le> status_code r \<Longrightarrow> raise_for_status r = Inr ()"
  by (auto simp: raise_for_status_def)

lemma publish_data_reply:
  "send (post_request c d ep) = Inr r \<Longrightarrow>
   publish_data send loads c d ep =
     (case raise_for_status r of Inl e \<Rightarrow> Inl e
      | Inr _ \<Rightarrow> if content r \<noteq> [] then response_json loads r else Inr (JObj []))"
  by (simp add: publish_data_def)

lemma get_data_reply:
  "send (get_request c ps ep) = Inr r \<Longrightarrow>
   get_data send loads c ps ep =
     (case raise_for_status r of Inl e \<Rightarrow> Inl e | Inr _ \<Rightarrow> response_json loads r)"
  by (simp add: get_data_def)

text \<open>
  Claim C7. When the server answers a POST of \<open>publish_data\<close> with a 2xx status, the
  result is the decoded body, and an empty body gives the empty mapping without the
  decoder being asked; a body the decoder rejects is the only source of a decode error.
\<close>

theorem publish_data_success:
  assumes "send (post_request c d ep) = Inr r"
    and "200 \<le> status_code r" and "status_code r < 300"
  shows "publish_data send loads c d ep =
           (if content r = [] then Inr (JObj [])
            else case loads (content r) of
                   Some j \<Rightarrow> Inr j
                 | None \<Rightarrow> Inl JSONDecodeError)"
proof -
  have "raise_for_status r = Inr ()"
    using assms(2,3) by (simp add: raise_for_status_ok)
  then show ?thesis
    using assms(1) by (simp add: publish_data_reply response_json_def split: option.split)
qed

theorem publish_data_success_witness:
  "publish_data (answer response_empty) example_loads example_client (JObj []) ''telemetry''
     = Inr (JObj [])
   \<and> publish_data (answer response_update) example_loads example_client (JObj []) ''telemetry''
     = Inr (JObj [(''shared'', JInt 1)])"
proof -
  have e: "answer response_empty (post_request example_client (JObj []) ''telemetry'') = Inr response_empty"
    by (simp add: answer_def)
  have u: "answer response_update (post_request example_client (JObj []) ''telemetry'') = Inr response_update"
    by (simp add: answer_def)
  show ?thesis
    using publish_data_success [where send = "answer response_empty" and loads = example_loads, OF e]
      publish_data_success [where send = "answer response_update" and loads = example_loads, OF u]
    by (simp add: response_empty_def response_update_def example_loads_def)
qed

text \<open>
  Claim C9. On a 2xx response to its GET, \<open>get_data\<close> always hands the body to the
  decoder and returns what the decoder makes of it. An empty body, which no JSON decoder
  accepts, therefore ends in a decode error, where \<open>publish_data\<close> on an empty 2xx
  body returns the empty mapping.
\<close>

theorem get_data_always_decodes:
  assumes "send (get_request c ps ep) = Inr r"
    and "200 \<le> status_code r" and "status_code r < 300"
  shows "get_data send loads c ps ep =
           (case loads (content r) of Some j \<Rightarrow> Inr j | None \<Rightarrow> Inl JSONDecodeError)
         \<and> (content r = [] \<and> loads [] = None \<longrightarrow>
              get_data send loads c ps ep = Inl JSONDecodeError)
         \<and> (content r = [] \<and> send (post_request c d ep') = Inr r \<longrightarrow>
              publish_data send loads c d ep' = Inr (JObj []))"
proof -
  have ok: "raise_for_status r = Inr ()"
    using assms(2,3) by (simp add: raise_for_status_ok)
  have g: "get_data send loads c ps ep =
             (case loads (content r) of Some j \<Rightarrow> Inr j | None \<Rightarrow> Inl JSONDecodeError)"
    using assms(1) ok by (simp add: get_data_reply response_json_def split: option.split)
  have e: "get_data send loads c ps ep = Inl JSONDecodeError"
    if "content r = []" "loads [] = None"
    using g that by simp
  have p: "publish_data send loads c d ep' = Inr (JObj [])"
    if "content r = []" "send (post_request c d ep') = Inr r"
    using that ok by (simp add: publish_data_reply)
  show ?thesis
    using g e p by blast
qed

theorem get_data_always_decodes_witness:
  "get_data (answer response_update) example_loads example_client [] ''attributes''
     = Inr (JObj [(''shared'', JInt 1)])
   \<and> get_data (answer response_empty) example_loads example_client [] ''attributes''
     = Inl JSONDecodeError
   \<and> publish_data (answer response_empty) example_loads example_client (JObj []) ''attributes''
     = Inr (JObj [])"
proof -
  have u: "answer response_update (get_request example_client [] ''attributes'') = Inr response_update"
    by (simp add: answer_def)
  have su: "(200::int) \<le> status_code response_update" "status_code response_update < 300"
    by (simp_all add: response_update_def)
  have lu: "example_loads (content response_update) = Some (JObj [(''shared'', JInt 1)])"
    by (simp add: response_update_def example_loads_def)
  have g: "answer response_empty (get_request example_client [] ''attributes'') = Inr response_empty"
    by (simp add: answer_def)
  have p: "answer response_empty (post_request example_client (JObj []) ''attributes'') = Inr response_empty"
    by (simp add: answer_def)
  have s: "(200::int) \<le> status_code response_empty" "status_code response_empty < 300"
    by (simp_all add: response_empty_def)
  have l: "example_loads [] = None"
    by (simp add: example_loads_def)
  have c: "content response_empty = []"
    by (simp add: response_empty_def)
  have first: "get_data (answer response_update) example_loads example_client [] ''attributes''
                 = Inr (JObj [(''shared'', JInt 1)])"
    using get_data_always_decodes
            [where send = "answer response_update" and loads = example_loads, OF u su,
             THEN conjunct1]
    by (simp add: lu)
  show ?thesis
    using first
      get_data_always_decodes
        [where send = "answer response_empty" and loads = example_loads
           and d = "JObj []" and ep' = "''attributes''", OF g s]
      c l p
    by blast
qed

text \<open>
  Claim C2, as the code has it. A response with a status from 400 to 599 to the POST of
  \<open>publish_data\<close> makes it raise the \<open>HTTPError\<close> of \<open>requests\<close>, and so does
  such a response to the GET of \<open>get_data\<close>. The exception holds the response and so
  its status and body; nothing else is raised, and the exception is not a
  \<open>TBHTTPAPIException\<close>.
\<close>

theorem error_status_raises_http_error:
  assumes "400 \<le> status_code r" and "status_code r < 600"
  shows "(send (post_request c d ep) = Inr r \<longrightarrow>
            publish_data send loads c d ep = Inl (HTTPError r))
         \<and> (send' (get_request c' ps ep') = Inr r \<longrightarrow>
              get_data send' loads' c' ps ep' = Inl (HTTPError r))
         \<and> \<not> is_TBHTTPAPIException (HTTPError r)"
proof -
  have e: "raise_for_status r = Inl (HTTPError r)"
    using assms by (rule raise_for_status_error)
  have p: "publish_data send loads c d ep = Inl (HTTPError r)"
    if "send (post_request c d ep) = Inr r"
    using that e by (simp add: publish_data_reply)
  have g: "get_data send' loads' c' ps ep' = Inl (HTTPError r)"
    if "send' (get_request c' ps ep') = Inr r"
    using that e by (simp add: get_data_reply)
  show ?thesis
    using p g by simp
qed

theorem error_status_raises_http_error_witness:
  "publish_data (answer response_not_found) example_loads example_client (JObj []) ''telemetry''
     = Inl (HTTPError response_not_found)
   \<and> get_data (answer response_not_found) example_loads example_client [] ''attributes''
     = Inl (HTTPError response_not_found)"
proof -
  have p: "answer response_not_found (post_request example_client (JObj []) ''telemetry'') = Inr response_not_found"
    by (simp add: answer_def)
  have g: "answer response_not_found (get_request example_client [] ''attributes'') = Inr response_not_found"
    by (simp add: answer_def)
  have s: "(400::int) \<le> status_code response_not_found" "status_code response_not_found < 600"
    by (simp_all add: response_not_found_def)
  show ?thesis
    using error_status_raises_http_error
            [where send = "answer response_not_found" and loads = example_loads
               and send' = "answer response_not_found" and loads' = example_loads
               and c = example_client and c' = example_client and d = "JObj []"
               and ep = "''telemetry''" and ps = "[]" and ep' = "''attributes''", OF s]
          p g
    by blast
qed

text \<open>
  Claim C2 as stated fails: on a 404 the exception that leaves \<open>publish_data\<close> is an
  \<open>HTTPError\<close>, which \<open>except TBHTTPAPIException\<close> does not catch.
\<close>

theorem http_error_is_not_api_exception:
  "publish_data (answer response_not_found) example_loads example_client (JObj []) ''telemetry''
     = Inl (HTTPError response_not_found)
   \<and> \<not> is_TBHTTPAPIException (HTTPError response_not_found)"
  by (simp add: publish_data_def answer_def raise_for_status_def response_not_found_def)

section \<open>Subscription loops\<close>

lemma is_set_unsubscribe: "is_set k (unsubscribe k c)"
  by (cases k) (simp_all add: unsubscribe_from_attributes_def unsubscribe_from_rpc_def)

lemma is_set_clear_event: "\<not> is_set k (clear_event k c)"
  by (cases k) simp_all



lemma iteration_gateway_timeout:
  "\<not> is_set k c \<Longrightarrow> status_code r = 504 \<Longrightarrow> iteration loads cb k tmo c r = ([], Continue)"
  by (simp add: iteration_def)

lemma iteration_request_timeout:
  "\<not> is_set k c \<Longrightarrow> status_code r = 408 \<Longrightarrow> truthy tmo \<Longrightarrow>
   iteration loads cb k tmo c r = ([], Break)"
  by (simp add: iteration_def)




text \<open>
  Claim C4. In a pass of either loop where the event is not set and the response has
  status 504, the callback is not called, nothing is raised and the loop is not left:
  the pass ends in \<open>continue\<close>, and the loop goes on with a new GET of the same
  request, whatever follows.
\<close>

theorem gateway_timeout_reconnects:
  assumes "\<not> is_set k c" and "status_code r = 504"
  shows "iteration loads cb k tmo c r = ([], Continue)
         \<and> while_loop loads cb k tmo c (Reply (Inr r) # acts) =
             (case while_loop loads cb k tmo c acts of
                (tr, out, c') \<Rightarrow> (Requested (poll_request k tmo c) # tr, out, c'))"
  using assms by (simp add: iteration_gateway_timeout)

theorem gateway_timeout_reconnects_witness:
  "iteration example_loads quiet Attributes None example_client response_gateway_timeout
     = ([], Continue)
   \<and> while_loop example_loads quiet Attributes None example_client
        [Reply (Inr response_gateway_timeout)]
     = ([Requested (poll_request Attributes None example_client)], Pending, example_client)"
proof -
  have a: "\<not> is_set Attributes example_client"
    by (simp add: example_client_def init_def)
  have b: "status_code response_gateway_timeout = 504"
    by (simp add: response_gateway_timeout_def)
  show ?thesis
    using gateway_timeout_reconnects [OF a b, of example_loads quiet None "[]"] by simp
qed

text \<open>
  Claim C5, as the code has it. In a pass of either loop where the event is not set, the
  timeout given at subscribe time is not zero and the response has status 408, the loop
  is left by \<open>break\<close>: the callback is not called and nothing is raised. Started on
  such a reply, the whole thread body ends after its single GET with the event cleared.
\<close>

theorem request_timeout_ends_subscription:
  assumes "\<not> is_set k c" and "status_code r = 408" and "n \<noteq> 0"
  shows "iteration loads cb k (Some n) c r = ([], Break)
         \<and> while_loop loads cb k (Some n) c (Reply (Inr r) # acts) = ([], Broke, c)
         \<and> subscription loads cb k (Some n) c (Reply (Inr r) # acts) =
             ([Requested (poll_request k (Some n) (clear_event k c))], Broke, clear_event k c)"
proof -
  have t: "truthy (Some n)"
    using assms(3) by simp
  have i: "iteration loads cb k (Some n) c r = ([], Break)"
    using assms(1,2) t by (rule iteration_request_timeout)
  have j: "iteration loads cb k (Some n) (clear_event k c) r = ([], Break)"
    using is_set_clear_event assms(2) t by (rule iteration_request_timeout)
  have e: "clear_event k (clear_event k c) = clear_event k c"
    by (cases k) simp_all
  show ?thesis
    using i j e by (simp add: subscription_def)
qed

theorem request_timeout_ends_subscription_witness:
  "iteration example_loads quiet Rpc (Some 30) example_client response_request_timeout
     = ([], Break)
   \<and> while_loop example_loads quiet Rpc (Some 30) example_client
        [Reply (Inr response_request_timeout)]
     = ([], Broke, example_client)"
proof -
  have a: "\<not> is_set Rpc example_client"
    by (simp add: example_client_def init_def)
  have b: "status_code response_request_timeout = 408"
    by (simp add: response_request_timeout_def)
  have c: "(30::int) \<noteq> 0"
    by simp
  show ?thesis
    using request_timeout_ends_subscription [OF a b c, of example_loads quiet "[]"] by simp
qed

text \<open>
  Claim C5 as stated fails for the timeout 0: it is supplied, but it is false in
  \<open>408 and timeout\<close>, so the 408 reaches \<open>raise_for_status\<close> and the loop ends
  in an \<open>HTTPError\<close>.
\<close>

theorem request_timeout_zero_raises:
  "fst (snd (subscribe_to_attributes example_loads quiet (Some 0) example_client
               [Reply (Inr response_request_timeout)]))
     = Raised (HTTPError response_request_timeout)"
  by (simp add: subscribe_to_attributes_def subscription_def iteration_def raise_for_status_def
        example_client_def init_def response_request_timeout_def)



subsection \<open>A timeout of zero\<close>














subsection \<open>The stop event\<close>

lemma is_set_unsubscribe_other: "k \<noteq> k' \<Longrightarrow> is_set k (unsubscribe k' c) = is_set k c"
  by (cases k; cases k')
     (simp_all add: unsubscribe_from_attributes_def unsubscribe_from_rpc_def)

lemma while_loop_event_unset:
  "\<not> is_set k c \<Longrightarrow> Unsubscribe k \<notin> set acts \<Longrightarrow>
   \<not> is_set k (snd (snd (while_loop loads cb k tmo c acts)))"
proof (induction loads cb k tmo c acts rule: while_loop.induct)
  case (2 loads callback k timeout c k' acts)
  then have "\<not> is_set k (unsubscribe k' c)"
    by (simp add: is_set_unsubscribe_other)
  with 2 show ?case by simp
next
  case (4 loads callback k timeout c r acts)
  obtain calls ctl where it: "iteration loads callback k timeout c r = (calls, ctl)"
    by (cases "iteration loads callback k timeout c r")
  show ?case
  proof (cases ctl)
    case Continue
    with "4.prems" "4.IH" [OF it [symmetric] Continue] it show ?thesis
      by (auto split: prod.splits)
  next
    case Break
    with "4.prems" it show ?thesis by simp
  next
    case (Raise e)
    with "4.prems" it show ?thesis by simp
  qed
qed simp_all

text \<open>
  Claim C8, as the code has it. The event of a kind is cleared when the thread body
  starts, so it is clear while the first GET is pending, and it is cleared again when
  the loop is left by \<open>break\<close>. It is set by the unsubscribe method of that kind and
  by nothing else: after a run with no such call it is clear, however the run ended.
\<close>

theorem event_cleared_at_start_and_end:
  "\<not> is_set k (snd (snd (subscription loads cb k tmo c [])))
   \<and> (fst (snd (subscription loads cb k tmo c acts)) = Broke \<longrightarrow>
        \<not> is_set k (snd (snd (subscription loads cb k tmo c acts))))
   \<and> (Unsubscribe k \<notin> set acts \<longrightarrow>
        \<not> is_set k (snd (snd (subscription loads cb k tmo c acts))))
   \<and> is_set k (unsubscribe k c)"
proof -
  have a: "\<not> is_set k (snd (snd (subscription loads cb k tmo c [])))"
    by (simp add: subscription_def is_set_clear_event)
  have b: "\<not> is_set k (snd (snd (subscription loads cb k tmo c acts)))"
    if "fst (snd (subscription loads cb k tmo c acts)) = Broke"
    using that by (auto simp: subscription_def is_set_clear_event split: prod.splits)
  have d: "\<not> is_set k (snd (snd (subscription loads cb k tmo c acts)))"
    if "Unsubscribe k \<notin> set acts"
    using while_loop_event_unset [OF is_set_clear_event that, of loads cb tmo c]
    by (auto simp: subscription_def is_set_clear_event split: prod.splits)
  show ?thesis
    using a b d is_set_unsubscribe by blast
qed

theorem event_cleared_at_start_and_end_witness:
  "fst (snd (subscription example_loads quiet Attributes None example_client
               [Unsubscribe Attributes, Reply (Inr response_update)])) = Broke
   \<and> \<not> is_set Attributes
         (snd (snd (subscription example_loads quiet Attributes None example_client
                      [Unsubscribe Attributes, Reply (Inr response_update)])))
   \<and> Unsubscribe Attributes \<notin> set [Reply (Inr response_update)]
   \<and> \<not> is_set Attributes
         (snd (snd (subscription example_loads quiet Attributes None example_client
                      [Reply (Inr response_update)])))"
proof -
  have b: "fst (snd (subscription example_loads quiet Attributes None example_client
                       [Unsubscribe Attributes, Reply (Inr response_update)])) = Broke"
    by (simp add: subscription_def iteration_def unsubscribe_from_attributes_def)
  have n: "Unsubscribe Attributes \<notin> set [Reply (Inr response_update)]"
    by simp
  show ?thesis
    using event_cleared_at_start_and_end
            [of Attributes example_loads quiet None example_client
                "[Unsubscribe Attributes, Reply (Inr response_update)]"]
          event_cleared_at_start_and_end
            [of Attributes example_loads quiet None example_client
                "[Reply (Inr response_update)]"]
          b n
    by blast
qed

text \<open>
  Claim C8 as stated fails at the end of the loop: after the \<open>break\<close> on a 408 the
  event is clear, not set.
\<close>

theorem event_clear_after_loop:
  "fst (snd (subscribe_to_rpc example_loads quiet (Some 30) example_client
               [Reply (Inr response_request_timeout)])) = Broke
   \<and> \<not> is_set Rpc
         (snd (snd (subscribe_to_rpc example_loads quiet (Some 30) example_client
                      [Reply (Inr response_request_timeout)])))"
  by (simp add: subscribe_to_rpc_def subscription_def iteration_def
        response_request_timeout_def)

section \<open>Provisioning results\<close>

text \<open>
  Claim C3, as the code has it. Let the provisioning POST be answered 2xx. If the body
  decodes to an object whose \<open>status\<close> is \<open>'SUCCESS'\<close>, whose \<open>credentialsType\<close> is
  \<open>'ACCESS_TOKEN'\<close> and which has a \<open>credentialsValue\<close>, \<open>provision\<close> returns a
  client for the given host whose token is that value and whose name is the device
  name. If it decodes to an object with another \<open>status\<close>, or with the status
  \<open>'SUCCESS'\<close> and another \<open>credentialsType\<close>, it raises \<open>TBProvisionFailure\<close>
  holding the whole decoded body. A body without a key that the code reads raises
  \<open>KeyError\<close> for that key, a decoded body that is no object raises \<open>TypeError\<close>,
  and a body the decoder rejects raises the decode error.
\<close>

theorem provision_result:
  assumes "send (provision_request h device_name device_key device_secret) = Inr r"
    and "200 \<le> status_code r" and "status_code r < 300"
  shows "provision send loads h device_name device_key device_secret =
           (case loads (content r) of
              None \<Rightarrow> Inl JSONDecodeError
            | Some (JObj d) \<Rightarrow>
                (case map_of d ''status'' of
                   None \<Rightarrow> Inl (KeyError ''status'')
                 | Some st \<Rightarrow>
                     if st \<noteq> JStr ''SUCCESS'' then Inl (TBProvisionFailure (JObj d))
                     else
                       (case map_of d ''credentialsType'' of
                          None \<Rightarrow> Inl (KeyError ''credentialsType'')
                        | Some ct \<Rightarrow>
                            if ct \<noteq> JStr ''ACCESS_TOKEN''
                            then Inl (TBProvisionFailure (JObj d))
                            else
                              (case map_of d ''credentialsValue'' of
                                 None \<Rightarrow> Inl (KeyError ''credentialsValue'')
                               | Some v \<Rightarrow>
                                   Inr \<lparr>host = h, token = v, name = Some device_name,
                                        attributes_event = False, rpc_event = False\<rparr>)))
            | Some _ \<Rightarrow> Inl TypeError)"
proof -
  have ok: "raise_for_status r = Inr ()"
    using assms(2,3) by (simp add: raise_for_status_ok)
  have p: "provision send loads h device_name device_key device_secret =
             (case response_json loads r of
                Inl e \<Rightarrow> Inl e
              | Inr device \<Rightarrow>
                  (case subscript device ''status'' of
                     Inl e \<Rightarrow> Inl e
                   | Inr st \<Rightarrow>
                       if st = JStr ''SUCCESS'' then
                         (case subscript device ''credentialsType'' of
                            Inl e \<Rightarrow> Inl e
                          | Inr ct \<Rightarrow>
                              if ct = JStr ''ACCESS_TOKEN'' then
                                (case subscript device ''credentialsValue'' of
                                   Inl e \<Rightarrow> Inl e
                                 | Inr v \<Rightarrow> Inr (init h v (Some device_name)))
                              else Inl (TBProvisionFailure device))
                       else Inl (TBProvisionFailure device)))"
    using assms(1) ok by (simp add: provision_def)
  show ?thesis
  proof (cases "loads (content r)")
    case None
    then show ?thesis
      by (simp add: p response_json_def)
  next
    case (Some device)
    then have dec: "response_json loads r = Inr device"
      by (simp add: response_json_def)
    show ?thesis
    proof (cases device)
      case (JObj d)
      show ?thesis
        unfolding p dec Some JObj
        by (simp add: init_def split: option.split)
    qed (simp_all add: p dec Some)
  qed
qed

theorem provision_result_witness:
  "provision (answer response_provisioned) example_loads ''http://localhost:8080''
       ''sensor-1'' ''key'' ''secret''
     = Inr \<lparr>host = ''http://localhost:8080'', token = JStr ''X'', name = Some ''sensor-1'',
            attributes_event = False, rpc_event = False\<rparr>
   \<and> provision (answer response_unprovisioned) example_loads ''http://localhost:8080''
       ''sensor-1'' ''key'' ''secret''
     = Inl (TBProvisionFailure (JObj [(''status'', JStr ''NOT_FOUND'')]))"
proof -
  let ?q = "provision_request ''http://localhost:8080'' ''sensor-1'' ''key'' ''secret''"
  have a: "answer response_provisioned ?q = Inr response_provisioned"
    by (simp add: answer_def)
  have s: "(200::int) \<le> status_code response_provisioned" "status_code response_provisioned < 300"
    by (simp_all add: response_provisioned_def)
  have l: "example_loads (content response_provisioned) =
             Some (JObj [(''status'', JStr ''SUCCESS''),
                         (''credentialsType'', JStr ''ACCESS_TOKEN''),
                         (''credentialsValue'', JStr ''X'')])"
    by (simp add: response_provisioned_def example_loads_def)
  have good: "provision (answer response_provisioned) example_loads ''http://localhost:8080''
                ''sensor-1'' ''key'' ''secret''
              = Inr \<lparr>host = ''http://localhost:8080'', token = JStr ''X'',
                     name = Some ''sensor-1'', attributes_event = False, rpc_event = False\<rparr>"
    using provision_result
            [where send = "answer response_provisioned" and loads = example_loads, OF a s]
    by (simp add: l)
  have b: "answer response_unprovisioned ?q = Inr response_unprovisioned"
    by (simp add: answer_def)
  have t: "(200::int) \<le> status_code response_unprovisioned"
    "status_code response_unprovisioned < 300"
    by (simp_all add: response_unprovisioned_def)
  have m: "example_loads (content response_unprovisioned) =
             Some (JObj [(''status'', JStr ''NOT_FOUND'')])"
    by (simp add: response_unprovisioned_def example_loads_def)
  have bad: "provision (answer response_unprovisioned) example_loads ''http://localhost:8080''
               ''sensor-1'' ''key'' ''secret''
             = Inl (TBProvisionFailure (JObj [(''status'', JStr ''NOT_FOUND'')]))"
    using provision_result
            [where send = "answer response_unprovisioned" and loads = example_loads, OF b t]
    by (simp add: m)
  show ?thesis
    using good bad by simp
qed

text \<open>
  Claim C3 as stated fails on a 2xx body that has the status \<open>'SUCCESS'\<close> and no
  \<open>credentialsType\<close>: line 202 raises \<open>KeyError\<close>, which is neither a client nor a
  \<open>TBProvisionFailure\<close>.
\<close>

theorem provision_status_only_key_error:
  "provision (answer response_status_only) example_loads ''http://localhost:8080''
       ''sensor-1'' ''key'' ''secret''
     = Inl (KeyError ''credentialsType'')
   \<and> \<not> is_TBHTTPAPIException (KeyError ''credentialsType'')"
  by (simp add: provision_def answer_def raise_for_status_def response_json_def
        response_status_only_def example_loads_def)

section \<open>Telemetry timestamps\<close>

text \<open>
  Without a timestamp the telemetry is posted as it is; with one it is wrapped with
  the converted time.
\<close>

lemma telemetry_payload_without_timestamp: "telemetry_payload telemetry None = telemetry"
  by (simp add: telemetry_payload_def)

lemma telemetry_payload_with_timestamp:
  "telemetry_payload telemetry (Some T) =
     JObj [(''ts'', JInt (telemetry_ts T)), (''values'', telemetry)]"
  by (simp add: telemetry_payload_def)

lemma send_telemetry_without_timestamp:
  "send_telemetry send loads c telemetry None =
     (case publish_data send loads c telemetry ''telemetry'' of
        Inl e \<Rightarrow> Inl e | Inr _ \<Rightarrow> Inr ())"
  by (simp add: send_telemetry_def telemetry_payload_def)

text \<open>
  The conversion on a present-day value: the quotient and the product are the binary64
  numbers Python computes, and the result is the exact number of milliseconds.
\<close>

lemma example_datetime_2023_ts:
  "utc_microseconds example_datetime_2023 = 1700000000001000
   \<and> utc_timestamp example_datetime_2023 = Double 7130316800004194 (- 22)
   \<and> double_times (utc_timestamp example_datetime_2023) 1000 = Double 6963200000004096 (- 12)
   \<and> telemetry_ts example_datetime_2023 = 1700000000001"
  by code_simp

lemma example_datetime_microseconds: "utc_microseconds example_datetime = 1001000"
  by code_simp

lemma example_datetime_ts: "telemetry_ts example_datetime = 1000"
  by code_simp

text \<open>
  Claim C1. The timestamp 1970-01-01T00:00:01.001 is 1001000 microseconds after the
  epoch, so the floor of its milliseconds is 1001. \<open>send_telemetry\<close> posts \<open>ts = 1000\<close>
  to the telemetry endpoint: the quotient \<open>1001000 / 10 ** 6\<close> is the binary64 number
  just below 1.001, its product with 1000 rounds to the number just below 1001, and
  \<open>int\<close> drops the fraction.
\<close>

theorem send_telemetry_loses_millisecond:
  "utc_microseconds example_datetime div 1000 = 1001
   \<and> telemetry_payload telemetry (Some example_datetime) =
       JObj [(''ts'', JInt 1000), (''values'', telemetry)]
   \<and> send_telemetry send loads c telemetry (Some example_datetime) =
       (case publish_data send loads c
               (JObj [(''ts'', JInt 1000), (''values'', telemetry)]) ''telemetry'' of
          Inl e \<Rightarrow> Inl e | Inr _ \<Rightarrow> Inr ())"
  by (simp add: send_telemetry_def telemetry_payload_def example_datetime_microseconds
        example_datetime_ts)

end
